theory Spec2Isabelle
  imports Main
begin

section \<open>The account controller of go-rest-api\<close>

text \<open>
  The repository's one source file, \<^verbatim>\<open>src/controller/v1/account/account.go\<close>, holds the
  four handlers \<^verbatim>\<open>Get\<close>, \<^verbatim>\<open>Register\<close>, \<^verbatim>\<open>Update\<close> and \<^verbatim>\<open>Delete\<close> of
  \<^verbatim>\<open>Controller\<close>. Each handler reads a \<^verbatim>\<open>gin.Context\<close>, calls at most one method of
  \<^verbatim>\<open>ctrl.svc\<close> and writes one response through the \<^verbatim>\<open>rest\<close> package.

  Everything a handler calls lives outside the file: \<^verbatim>\<open>jwt.ExtractID\<close>,
  \<^verbatim>\<open>rest.BindJSON\<close>, \<^verbatim>\<open>validation.Validator.Struct\<close>, \<^verbatim>\<open>strings.ToLower\<close>, the
  \<^verbatim>\<open>account.Servicer\<close> behind \<^verbatim>\<open>ctrl.svc\<close> and the error values of package
  \<^verbatim>\<open>constant\<close>. They are parameters of the model; the handlers are translated line by
  line over them.
\<close>

subsection \<open>Go errors and \<^verbatim>\<open>errors.Is\<close>\<close>

text \<open>
  A non-nil Go \<^verbatim>\<open>error\<close>: the identity of the value (two errors made by two calls of
  \<^verbatim>\<open>errors.New\<close> differ even with equal texts), the text its \<^verbatim>\<open>Error()\<close> method
  returns, and the error it wraps, if any (\<^verbatim>\<open>Unwrap()\<close>). A possibly-nil \<^verbatim>\<open>error\<close> is
  an \<open>error option\<close>, \<open>None\<close> being \<^verbatim>\<open>nil\<close>.
\<close>

datatype error = Error_value (ident: nat) (Error: string) (Unwrap: "error option")

text \<open>
  \<^verbatim>\<open>errors.Is(err, target)\<close> for a non-nil \<open>target\<close>: false on \<^verbatim>\<open>nil\<close>, otherwise
  it walks the chain of \<^verbatim>\<open>Unwrap\<close> and compares each link with the target. Errors
  that carry an \<^verbatim>\<open>Is\<close> method of their own, or that wrap several errors at once, are
  not part of this model.
\<close>

fun errors_Is :: "error option \<Rightarrow> error \<Rightarrow> bool" where
  "errors_Is None target = False"
| "errors_Is (Some (Error_value i m c)) target =
     (Error_value i m c = target \<or> errors_Is c target)"

subsection \<open>Package \<^verbatim>\<open>constant\<close>\<close>

text \<open>
  The error values of package \<^verbatim>\<open>constant\<close> that the controller names. The package is
  not part of the source at hand, so its values are a parameter. Every one of them has its
  \<^verbatim>\<open>Error()\<close> method called by the controller, so none is \<^verbatim>\<open>nil\<close>.
\<close>

record constants =
  ErrInvalidFormat :: error
  ErrAccountExist :: error
  ErrAccountNotRegistered :: error
  ErrUsernameCannotBeEmpty :: error
  ErrPasswordCannotBeEmpty :: error
  ErrUsernameAlreadyExist :: error
  ErrEmailAlreadyExist :: error
  ErrKTPNumberAlreadyExist :: error
  ErrPhoneNumberAlreadyExist :: error
  ErrInvalidDOBFormat :: error

subsection \<open>Requests and responses\<close>

text \<open>
  The part of \<^verbatim>\<open>gin.Context\<close> a handler reads: the request headers, by their
  canonical names, and the raw body. \<^verbatim>\<open>ctx.GetHeader\<close> returns the empty string for a
  header that is absent.
\<close>

record Context =
  headers :: "string \<rightharpoonup> string"
  body :: string

definition GetHeader :: "Context \<Rightarrow> string \<Rightarrow> string" where
  "GetHeader ctx key = (case headers ctx key of None \<Rightarrow> [] | Some v \<Rightarrow> v)"

text \<open>The status codes of \<^verbatim>\<open>net/http\<close> the controller uses.\<close>

definition StatusOK :: nat where "StatusOK = 200"
definition StatusCreated :: nat where "StatusCreated = 201"
definition StatusBadRequest :: nat where "StatusBadRequest = 400"
definition StatusUnauthorized :: nat where "StatusUnauthorized = 401"
definition StatusConflict :: nat where "StatusConflict = 409"
definition StatusInternalServerError :: nat where "StatusInternalServerError = 500"

text \<open>
  The \<^verbatim>\<open>detail\<close> argument of \<^verbatim>\<open>rest.ResponseError\<close>: the controller passes either a
  \<^verbatim>\<open>map[string]string\<close> literal or the error the validator returned.
\<close>

datatype detail = Detail_map "string \<rightharpoonup> string" | Detail_error error

text \<open>
  A response is the call of package \<^verbatim>\<open>rest\<close> that writes it, with its arguments:
  \<^verbatim>\<open>rest.ResponseMessage(ctx, status)\<close>, \<^verbatim>\<open>rest.ResponseError(ctx, status, detail)\<close> or
  \<^verbatim>\<open>rest.ResponseData(ctx, status, payload)\<close>.
\<close>

datatype 'view response =
    ResponseMessage nat
  | ResponseError nat detail
  | ResponseData nat 'view

fun status :: "'view response \<Rightarrow> nat" where
  "status (ResponseMessage s) = s"
| "status (ResponseError s d) = s"
| "status (ResponseData s v) = s"

subsection \<open>Payloads\<close>

text \<open>
  \<^verbatim>\<open>entity.RegisterUser\<close>: the controller touches its \<^verbatim>\<open>Username\<close> field only; the
  other fields of the struct are the extension part of the record.
\<close>

record RegisterUser =
  Username :: string

subsection \<open>The service and the other collaborators\<close>

text \<open>
  \<^verbatim>\<open>account.Servicer\<close>, the interface behind \<^verbatim>\<open>ctrl.svc\<close>. A method reads and
  updates the state \<open>'st\<close> of the service (its storage) and returns its Go results.
\<close>

record ('st, 'id, 'view, 'reg, 'upd) Servicer =
  svc_TakeAccountByID :: "'id \<Rightarrow> 'st \<Rightarrow> (error + 'view) \<times> 'st"
  svc_Create :: "'reg \<Rightarrow> 'st \<Rightarrow> error option \<times> 'st"
  svc_Update :: "'id \<Rightarrow> 'upd \<Rightarrow> 'st \<Rightarrow> error option \<times> 'st"
  svc_Delete :: "'id \<Rightarrow> 'st \<Rightarrow> error option \<times> 'st"

record ('st, 'id, 'view, 'reg, 'upd) Controller =
  svc :: "('st, 'id, 'view, 'reg, 'upd) Servicer"

definition NewController ::
  "('st, 'id, 'view, 'reg, 'upd) Servicer \<Rightarrow> ('st, 'id, 'view, 'reg, 'upd) Controller" where
  "NewController servicer = \<lparr>svc = servicer\<rparr>"

text \<open>
  The functions of other packages a handler calls. \<^verbatim>\<open>rest.BindJSON(ctx, &req)\<close> fills
  the struct it is handed and returns an error or \<^verbatim>\<open>nil\<close>; the struct it leaves behind is
  returned with the error, since \<^verbatim>\<open>Update\<close> logs it after a failed binding.
\<close>

record ('id, 'reg, 'upd) packages =
  jwt_ExtractID :: "string \<Rightarrow> error + 'id"
  rest_BindJSON_RegisterUser :: "Context \<Rightarrow> 'reg \<Rightarrow> 'reg \<times> error option"
  rest_BindJSON_UpdateUser :: "Context \<Rightarrow> 'upd \<Rightarrow> 'upd \<times> error option"
  validation_Struct_RegisterUser :: "'reg \<Rightarrow> error option"
  validation_Struct_UpdateUser :: "'upd \<Rightarrow> error option"
  strings_ToLower :: "string \<Rightarrow> string"
  RegisterUser_zero :: "'reg"
  UpdateUser_zero :: "'upd"

subsection \<open>What a handler leaves behind\<close>

text \<open>The methods of \<^verbatim>\<open>ctrl.svc\<close> a handler has invoked, with their arguments.\<close>

datatype ('id, 'reg, 'upd) svc_call =
    Call_TakeAccountByID 'id
  | Call_Create 'reg
  | Call_Update 'id 'upd
  | Call_Delete 'id

text \<open>An argument of \<^verbatim>\<open>log.Println\<close>; a log line is the list of its arguments.\<close>

datatype ('reg, 'upd) log_arg =
    Log_string string
  | Log_error error
  | Log_RegisterUser 'reg
  | Log_UpdateUser 'upd

text \<open>
  The effects of one handler call: the response written to the context, the service
  methods invoked (in order), the lines logged (in order) and the state of the service
  afterwards.
\<close>

record ('st, 'id, 'view, 'reg, 'upd) outcome =
  response :: "'view response"
  svc_calls :: "('id, 'reg, 'upd) svc_call list"
  log_lines :: "('reg, 'upd) log_arg list list"
  svc_state :: 'st

subsection \<open>The handlers\<close>

definition Get ::
  "('id, 'reg, 'upd) packages \<Rightarrow> ('st, 'id, 'view, 'reg, 'upd) Controller \<Rightarrow> Context \<Rightarrow> 'st
    \<Rightarrow> ('st, 'id, 'view, 'reg, 'upd) outcome" where
  "Get pkg ctrl ctx st =
    (case jwt_ExtractID pkg (GetHeader ctx ''Authorization'') of
      Inl err \<Rightarrow>
        \<lparr>response = ResponseMessage StatusUnauthorized,
         svc_calls = [], log_lines = [], svc_state = st\<rparr>
    | Inr accountID \<Rightarrow>
        (case svc_TakeAccountByID (svc ctrl) accountID st of
          (Inl err, st') \<Rightarrow>
            \<lparr>response = ResponseMessage StatusInternalServerError,
             svc_calls = [Call_TakeAccountByID accountID],
             log_lines = [[Log_string ''get account by id:'', Log_error err]],
             svc_state = st'\<rparr>
        | (Inr resp, st') \<Rightarrow>
            \<lparr>response = ResponseData StatusOK resp,
             svc_calls = [Call_TakeAccountByID accountID],
             log_lines = [], svc_state = st'\<rparr>))"

definition Register ::
  "('id, 'm RegisterUser_scheme, 'upd) packages \<Rightarrow> constants
    \<Rightarrow> ('st, 'id, 'view, 'm RegisterUser_scheme, 'upd) Controller \<Rightarrow> Context \<Rightarrow> 'st
    \<Rightarrow> ('st, 'id, 'view, 'm RegisterUser_scheme, 'upd) outcome" where
  "Register pkg const ctrl ctx st =
    (case rest_BindJSON_RegisterUser pkg ctx (RegisterUser_zero pkg) of
      (req, Some err) \<Rightarrow>
        \<lparr>response = ResponseError StatusBadRequest
           (Detail_map [''body'' \<mapsto> Error (ErrInvalidFormat const)]),
         svc_calls = [], log_lines = [], svc_state = st\<rparr>
    | (req, None) \<Rightarrow>
        (case validation_Struct_RegisterUser pkg req of
          Some err \<Rightarrow>
            \<lparr>response = ResponseError StatusBadRequest (Detail_error err),
             svc_calls = [],
             log_lines = [[Log_string ''validate struct:'', Log_error err,
                           Log_string ''request:'', Log_RegisterUser req]],
             svc_state = st\<rparr>
        | None \<Rightarrow>
            (let req = req\<lparr>Username := strings_ToLower pkg (Username req)\<rparr>;
                 (err, st') = svc_Create (svc ctrl) req st
             in if errors_Is err (ErrAccountExist const) then
                  \<lparr>response = ResponseError StatusConflict
                     (Detail_map [''account'' \<mapsto> Error (ErrAccountExist const)]),
                   svc_calls = [Call_Create req], log_lines = [], svc_state = st'\<rparr>
                else (case err of
                  Some e \<Rightarrow>
                    \<lparr>response = ResponseMessage StatusInternalServerError,
                     svc_calls = [Call_Create req],
                     log_lines = [[Log_string ''register:'', Log_string (Error e)]],
                     svc_state = st'\<rparr>
                | None \<Rightarrow>
                    \<lparr>response = ResponseMessage StatusCreated,
                     svc_calls = [Call_Create req], log_lines = [], svc_state = st'\<rparr>))))"

definition Update ::
  "('id, 'reg, 'upd) packages \<Rightarrow> constants
    \<Rightarrow> ('st, 'id, 'view, 'reg, 'upd) Controller \<Rightarrow> Context \<Rightarrow> 'st
    \<Rightarrow> ('st, 'id, 'view, 'reg, 'upd) outcome" where
  "Update pkg const ctrl ctx st =
    (case rest_BindJSON_UpdateUser pkg ctx (UpdateUser_zero pkg) of
      (request, Some err) \<Rightarrow>
        \<lparr>response = ResponseError StatusBadRequest
           (Detail_map [''body'' \<mapsto> Error (ErrInvalidFormat const)]),
         svc_calls = [],
         log_lines = [[Log_string ''bind json:'', Log_error err,
                       Log_string ''request:'', Log_UpdateUser request]],
         svc_state = st\<rparr>
    | (request, None) \<Rightarrow>
        (case validation_Struct_UpdateUser pkg request of
          Some err \<Rightarrow>
            \<lparr>response = ResponseError StatusBadRequest (Detail_error err),
             svc_calls = [],
             log_lines = [[Log_string ''validate struct:'', Log_error err,
                           Log_string ''request:'', Log_UpdateUser request]],
             svc_state = st\<rparr>
        | None \<Rightarrow>
            (case jwt_ExtractID pkg (GetHeader ctx ''Authorization'') of
              Inl err \<Rightarrow>
                \<lparr>response = ResponseMessage StatusUnauthorized,
                 svc_calls = [], log_lines = [], svc_state = st\<rparr>
            | Inr accountID \<Rightarrow>
                (case svc_Update (svc ctrl) accountID request st of
                  (Some err, st') \<Rightarrow>
                    (if errors_Is (Some err) (ErrAccountNotRegistered const) then
                       \<lparr>response = ResponseError StatusBadRequest
                          (Detail_map [''accounts'' \<mapsto> Error (ErrAccountNotRegistered const)]),
                        svc_calls = [Call_Update accountID request], log_lines = [],
                        svc_state = st'\<rparr>
                     else if errors_Is (Some err) (ErrUsernameCannotBeEmpty const) then
                       \<lparr>response = ResponseError StatusBadRequest
                          (Detail_map [''accounts'' \<mapsto> Error (ErrUsernameCannotBeEmpty const)]),
                        svc_calls = [Call_Update accountID request], log_lines = [],
                        svc_state = st'\<rparr>
                     else if errors_Is (Some err) (ErrPasswordCannotBeEmpty const) then
                       \<lparr>response = ResponseError StatusBadRequest
                          (Detail_map [''accounts'' \<mapsto> Error (ErrPasswordCannotBeEmpty const)]),
                        svc_calls = [Call_Update accountID request], log_lines = [],
                        svc_state = st'\<rparr>
                     else if errors_Is (Some err) (ErrUsernameAlreadyExist const) then
                       \<lparr>response = ResponseError StatusBadRequest
                          (Detail_map [''accounts'' \<mapsto> Error (ErrUsernameAlreadyExist const)]),
                        svc_calls = [Call_Update accountID request], log_lines = [],
                        svc_state = st'\<rparr>
                     else if errors_Is (Some err) (ErrEmailAlreadyExist const) then
                       \<lparr>response = ResponseError StatusBadRequest
                          (Detail_map [''accounts'' \<mapsto> Error (ErrEmailAlreadyExist const)]),
                        svc_calls = [Call_Update accountID request], log_lines = [],
                        svc_state = st'\<rparr>
                     else if errors_Is (Some err) (ErrKTPNumberAlreadyExist const) then
                       \<lparr>response = ResponseError StatusBadRequest
                          (Detail_map [''accounts'' \<mapsto> Error (ErrKTPNumberAlreadyExist const)]),
                        svc_calls = [Call_Update accountID request], log_lines = [],
                        svc_state = st'\<rparr>
                     else if errors_Is (Some err) (ErrPhoneNumberAlreadyExist const) then
                       \<lparr>response = ResponseError StatusBadRequest
                          (Detail_map [''accounts'' \<mapsto> Error (ErrPhoneNumberAlreadyExist const)]),
                        svc_calls = [Call_Update accountID request], log_lines = [],
                        svc_state = st'\<rparr>
                     else if errors_Is (Some err) (ErrInvalidDOBFormat const) then
                       \<lparr>response = ResponseError StatusBadRequest
                          (Detail_map [''accounts'' \<mapsto> Error (ErrInvalidDOBFormat const)]),
                        svc_calls = [Call_Update accountID request], log_lines = [],
                        svc_state = st'\<rparr>
                     else
                       \<lparr>response = ResponseMessage StatusInternalServerError,
                        svc_calls = [Call_Update accountID request],
                        log_lines = [[Log_string ''update account: '', Log_string (Error err)]],
                        svc_state = st'\<rparr>)
                | (None, st') \<Rightarrow>
                    \<lparr>response = ResponseMessage StatusOK,
                     svc_calls = [Call_Update accountID request],
                     log_lines = [], svc_state = st'\<rparr>))))"

definition Delete ::
  "('id, 'reg, 'upd) packages \<Rightarrow> constants
    \<Rightarrow> ('st, 'id, 'view, 'reg, 'upd) Controller \<Rightarrow> Context \<Rightarrow> 'st
    \<Rightarrow> ('st, 'id, 'view, 'reg, 'upd) outcome" where
  "Delete pkg const ctrl ctx st =
    (case jwt_ExtractID pkg (GetHeader ctx ''Authorization'') of
      Inl err \<Rightarrow>
        \<lparr>response = ResponseMessage StatusUnauthorized,
         svc_calls = [], log_lines = [], svc_state = st\<rparr>
    | Inr accountID \<Rightarrow>
        (case svc_Delete (svc ctrl) accountID st of
          (Some err, st') \<Rightarrow>
            (if errors_Is (Some err) (ErrAccountNotRegistered const) then
               \<lparr>response = ResponseError StatusBadRequest
                  (Detail_map [''accounts'' \<mapsto> Error (ErrAccountNotRegistered const)]),
                svc_calls = [Call_Delete accountID], log_lines = [], svc_state = st'\<rparr>
             else
               \<lparr>response = ResponseMessage StatusInternalServerError,
                svc_calls = [Call_Delete accountID],
                log_lines = [[Log_string ''delete account: '', Log_string (Error err)]],
                svc_state = st'\<rparr>)
        | (None, st') \<Rightarrow>
            \<lparr>response = ResponseMessage StatusOK,
             svc_calls = [Call_Delete accountID], log_lines = [], svc_state = st'\<rparr>))"

subsection \<open>Reading a response\<close>

text \<open>
  The message a response carries under a field key: the entry of the
  \<^verbatim>\<open>map[string]string\<close> handed to \<^verbatim>\<open>rest.ResponseError\<close>. A response written by
  \<^verbatim>\<open>rest.ResponseMessage\<close> or \<^verbatim>\<open>rest.ResponseData\<close>, or one whose detail is the
  validator's error, has no such entry.
\<close>

fun field_message :: "'view response \<Rightarrow> string \<rightharpoonup> string" where
  "field_message (ResponseError s (Detail_map m)) = m"
| "field_message (ResponseError s (Detail_error e)) = Map.empty"
| "field_message (ResponseMessage s) = Map.empty"
| "field_message (ResponseData s v) = Map.empty"

subsection \<open>The domain error kinds of \<^verbatim>\<open>Update\<close>\<close>

text \<open>
  The specification names eight domain error kinds that \<^verbatim>\<open>Update\<close> answers with a
  field-scoped message. Each kind stands for one error value of package
  \<^verbatim>\<open>constant\<close>; the list is in the order the specification gives them, which is the
  order of the tests in the source.
\<close>

datatype domain_error_kind =
    Not_registered
  | Username_empty
  | Password_empty
  | Username_exists
  | Email_exists
  | KTP_exists
  | Phone_exists
  | Invalid_date_of_birth

definition domain_error_kinds :: "domain_error_kind list" where
  "domain_error_kinds =
    [Not_registered, Username_empty, Password_empty, Username_exists,
     Email_exists, KTP_exists, Phone_exists, Invalid_date_of_birth]"

fun kind_error :: "constants \<Rightarrow> domain_error_kind \<Rightarrow> error" where
  "kind_error const Not_registered = ErrAccountNotRegistered const"
| "kind_error const Username_empty = ErrUsernameCannotBeEmpty const"
| "kind_error const Password_empty = ErrPasswordCannotBeEmpty const"
| "kind_error const Username_exists = ErrUsernameAlreadyExist const"
| "kind_error const Email_exists = ErrEmailAlreadyExist const"
| "kind_error const KTP_exists = ErrKTPNumberAlreadyExist const"
| "kind_error const Phone_exists = ErrPhoneNumberAlreadyExist const"
| "kind_error const Invalid_date_of_birth = ErrInvalidDOBFormat const"

text \<open>
  An error of the service reports a kind when \<^verbatim>\<open>errors.Is\<close> matches it with the kind's
  error value. It is of that kind alone when it reports no other of the eight.
\<close>

definition reports :: "constants \<Rightarrow> error option \<Rightarrow> domain_error_kind \<Rightarrow> bool" where
  "reports const err k = errors_Is err (kind_error const k)"

definition reports_only :: "constants \<Rightarrow> error option \<Rightarrow> domain_error_kind \<Rightarrow> bool" where
  "reports_only const err k =
    (reports const err k \<and>
     list_all (\<lambda>j. j = k \<or> \<not> reports const err j) domain_error_kinds)"

subsection \<open>A small instance to run the handlers on\<close>

text \<open>
  Concrete collaborators for evaluating the handlers: error values for package
  \<^verbatim>\<open>constant\<close>, a token reader that knows three bearer tokens, a binder that decodes a
  few request bodies and rejects everything else, a validator with one required field per
  payload, an ASCII \<^verbatim>\<open>strings.ToLower\<close>, and a service that keeps accounts (username
  and e-mail address) in a list, the position being the account identifier.
\<close>

definition sample_constants :: constants where
  "sample_constants =
    \<lparr>ErrInvalidFormat = Error_value 1 ''invalid format'' None,
     ErrAccountExist = Error_value 2 ''account already exist'' None,
     ErrAccountNotRegistered = Error_value 3 ''account not registered'' None,
     ErrUsernameCannotBeEmpty = Error_value 4 ''username cannot be empty'' None,
     ErrPasswordCannotBeEmpty = Error_value 5 ''password cannot be empty'' None,
     ErrUsernameAlreadyExist = Error_value 6 ''username already exist'' None,
     ErrEmailAlreadyExist = Error_value 7 ''email already exist'' None,
     ErrKTPNumberAlreadyExist = Error_value 8 ''ktp number already exist'' None,
     ErrPhoneNumberAlreadyExist = Error_value 9 ''phone number already exist'' None,
     ErrInvalidDOBFormat = Error_value 10 ''invalid date of birth format'' None\<rparr>"

definition ascii_ToLower :: "string \<Rightarrow> string" where
  "ascii_ToLower s =
    map (\<lambda>c. case map_of (zip ''ABCDEFGHIJKLMNOPQRSTUVWXYZ'' ''abcdefghijklmnopqrstuvwxyz'') c of
                Some l \<Rightarrow> l
              | None \<Rightarrow> c) s"

definition sample_ExtractID :: "string \<Rightarrow> error + nat" where
  "sample_ExtractID h =
    (if h = ''Bearer token-of-0'' then Inr 0
     else if h = ''Bearer token-of-1'' then Inr 1
     else if h = ''Bearer token-of-7'' then Inr 7
     else Inl (Error_value 20 ''token is malformed'' None))"

text \<open>
  The registration payload of the instance: \<^verbatim>\<open>RegisterUser\<close> with an e-mail address as
  its other field.
\<close>

record sample_RegisterUser = RegisterUser +
  Email :: string

definition sample_BindJSON_RegisterUser ::
  "Context \<Rightarrow> sample_RegisterUser \<Rightarrow> sample_RegisterUser \<times> error option" where
  \<open>sample_BindJSON_RegisterUser ctx req =
    (if body ctx = ''{"username":"Alice","email":"Alice@Example.net"}''
       then (req\<lparr>Username := ''Alice'', Email := ''Alice@Example.net''\<rparr>, None)
     else if body ctx = ''{"username":"Carol","email":"Carol@Example.org"}''
       then (req\<lparr>Username := ''Carol'', Email := ''Carol@Example.org''\<rparr>, None)
     else if body ctx = ''{"username":"Zed-Full","email":"zed@example.org"}''
       then (req\<lparr>Username := ''Zed-Full'', Email := ''zed@example.org''\<rparr>, None)
     else if body ctx = ''{}'' then (req, None)
     else (req, Some (Error_value 21 ''unexpected end of JSON input'' None)))\<close>

text \<open>The update payload of the instance: the new username and the new e-mail address.\<close>

definition sample_BindJSON_UpdateUser ::
  "Context \<Rightarrow> string \<times> string \<Rightarrow> (string \<times> string) \<times> error option" where
  \<open>sample_BindJSON_UpdateUser ctx request =
    (if body ctx = ''{"username":"dave","email":"dave@example.org"}''
       then ((''dave'', ''dave@example.org''), None)
     else if body ctx = ''{"username":"bob","email":"dave@example.org"}''
       then ((''bob'', ''dave@example.org''), None)
     else if body ctx = ''{"username":"dave","email":"bob@example.org"}''
       then ((''dave'', ''bob@example.org''), None)
     else if body ctx = ''{"username":"dave","email":"broken"}''
       then ((''dave'', ''broken''), None)
     else if body ctx = ''{"email":"dave@example.org"}''
       then (([], ''dave@example.org''), None)
     else if body ctx = ''{}'' then (request, None)
     else (request, Some (Error_value 21 ''unexpected end of JSON input'' None)))\<close>

definition sample_Struct_RegisterUser :: "sample_RegisterUser \<Rightarrow> error option" where
  "sample_Struct_RegisterUser req =
    (if Username req = [] then Some (Error_value 22 ''Username is required'' None) else None)"

definition sample_Struct_UpdateUser :: "string \<times> string \<Rightarrow> error option" where
  "sample_Struct_UpdateUser request =
    (if snd request = [] then Some (Error_value 23 ''Email is required'' None) else None)"

definition sample_packages :: "(nat, sample_RegisterUser, string \<times> string) packages" where
  "sample_packages =
    \<lparr>jwt_ExtractID = sample_ExtractID,
     rest_BindJSON_RegisterUser = sample_BindJSON_RegisterUser,
     rest_BindJSON_UpdateUser = sample_BindJSON_UpdateUser,
     validation_Struct_RegisterUser = sample_Struct_RegisterUser,
     validation_Struct_UpdateUser = sample_Struct_UpdateUser,
     strings_ToLower = ascii_ToLower,
     RegisterUser_zero = \<lparr>Username = [], Email = []\<rparr>,
     UpdateUser_zero = ([], [])\<rparr>"

definition sample_TakeAccountByID ::
  "nat \<Rightarrow> (string \<times> string) list \<Rightarrow> (error + string \<times> string) \<times> (string \<times> string) list" where
  "sample_TakeAccountByID i st =
    (if i < length st then (Inr (st ! i), st)
     else (Inl (Error_value 30 ''record not found'' None), st))"

definition sample_Create ::
  "sample_RegisterUser \<Rightarrow> (string \<times> string) list
    \<Rightarrow> error option \<times> (string \<times> string) list" where
  "sample_Create req st =
    (if Username req \<in> set (map fst st) then
       (Some (Error_value 31 ''create account: account already exist''
                (Some (ErrAccountExist sample_constants))), st)
     else if Username req = ''zed-full'' then
       (Some (Error_value 32 ''insert accounts: disk full'' None), st)
     else (None, st @ [(Username req, Email req)]))"

definition sample_Update ::
  "nat \<Rightarrow> string \<times> string \<Rightarrow> (string \<times> string) list
    \<Rightarrow> error option \<times> (string \<times> string) list" where
  "sample_Update i request st =
    (if length st \<le> i then (Some (ErrAccountNotRegistered sample_constants), st)
     else if fst request = [] then (Some (ErrUsernameCannotBeEmpty sample_constants), st)
     else if fst request \<in> set (map fst st) then
       (Some (Error_value 33 ''update account: username already exist''
                (Some (ErrUsernameAlreadyExist sample_constants))), st)
     else if snd request \<in> set (map snd st) then
       (Some (ErrEmailAlreadyExist sample_constants), st)
     else if snd request = ''broken'' then
       (Some (Error_value 34 ''update accounts: connection reset by peer'' None), st)
     else (None, st[i := request]))"

definition sample_Delete ::
  "nat \<Rightarrow> (string \<times> string) list \<Rightarrow> error option \<times> (string \<times> string) list" where
  "sample_Delete i st =
    (if length st \<le> i then (Some (ErrAccountNotRegistered sample_constants), st)
     else if fst (st ! i) = ''root'' then
       (Some (Error_value 35 ''delete accounts: permission denied'' None), st)
     else (None, take i st @ drop (Suc i) st))"

definition sample_Controller ::
  "((string \<times> string) list, nat, string \<times> string, sample_RegisterUser, string \<times> string)
    Controller" where
  "sample_Controller = NewController
    \<lparr>svc_TakeAccountByID = sample_TakeAccountByID,
     svc_Create = sample_Create,
     svc_Update = sample_Update,
     svc_Delete = sample_Delete\<rparr>"

definition sample_store :: "(string \<times> string) list" where
  "sample_store = [(''alice'', ''alice@example.org''), (''bob'', ''bob@example.org'')]"

definition root_store :: "(string \<times> string) list" where
  "root_store = [(''root'', ''root@example.org'')]"

definition request_with :: "string \<Rightarrow> string \<Rightarrow> Context" where
  "request_with token payload = \<lparr>headers = [''Authorization'' \<mapsto> token], body = payload\<rparr>"

definition anonymous_request :: "string \<Rightarrow> Context" where
  "anonymous_request payload = \<lparr>headers = Map.empty, body = payload\<rparr>"

subsection \<open>Replaying the invocations of the service\<close>

text \<open>
  The state a method of the service leaves when invoked as recorded, and the state after
  a list of invocations in order. A handler's effect on the service is exactly that of
  the invocations it records (lemmas \<open>Get_replay\<close> to \<open>Delete_replay\<close> below).
\<close>

fun invoke ::
  "('st, 'id, 'view, 'reg, 'upd) Servicer \<Rightarrow> ('id, 'reg, 'upd) svc_call \<Rightarrow> 'st \<Rightarrow> 'st" where
  "invoke s (Call_TakeAccountByID accountID) st = snd (svc_TakeAccountByID s accountID st)"
| "invoke s (Call_Create req) st = snd (svc_Create s req st)"
| "invoke s (Call_Update accountID request) st = snd (svc_Update s accountID request st)"
| "invoke s (Call_Delete accountID) st = snd (svc_Delete s accountID st)"

definition replay ::
  "('st, 'id, 'view, 'reg, 'upd) Servicer \<Rightarrow> ('id, 'reg, 'upd) svc_call list \<Rightarrow> 'st \<Rightarrow> 'st" where
  "replay s calls st = fold (invoke s) calls st"

section \<open>Properties\<close>

lemmas http_Status_defs =
  StatusOK_def StatusCreated_def StatusBadRequest_def StatusUnauthorized_def
  StatusConflict_def StatusInternalServerError_def

lemmas sample_defs =
  sample_constants_def ascii_ToLower_def sample_ExtractID_def
  sample_BindJSON_RegisterUser_def sample_BindJSON_UpdateUser_def
  sample_Struct_RegisterUser_def sample_Struct_UpdateUser_def sample_packages_def
  sample_TakeAccountByID_def sample_Create_def sample_Update_def sample_Delete_def
  sample_Controller_def NewController_def sample_store_def root_store_def
  request_with_def anonymous_request_def GetHeader_def

subsection \<open>\<^verbatim>\<open>errors.Is\<close> and the error kinds\<close>

lemma errors_Is_refl: "errors_Is (Some e) e"
  by (cases e) simp

text \<open>
  Two targets found on one chain lie on each other's chain: the one met first wraps the
  other.
\<close>

lemma errors_Is_common:
  "errors_Is err a \<Longrightarrow> errors_Is err b \<Longrightarrow> errors_Is (Some a) b \<or> errors_Is (Some b) a"
proof (induction err a rule: errors_Is.induct)
  case (1 target)
  then show ?case by simp
next
  case (2 i m c target)
  then show ?case
    by (cases "Error_value i m c = target"; cases "Error_value i m c = b") auto
qed

text \<open>
  When no error value of the eight kinds wraps (or equals) the value of another kind, as
  with values that each come from their own \<^verbatim>\<open>errors.New\<close>, an error reports at most
  one kind: reporting a kind is then reporting that kind alone.
\<close>

lemma reports_only_unique:
  assumes indep: "\<And>j k. j \<noteq> k \<Longrightarrow> \<not> errors_Is (Some (kind_error const j)) (kind_error const k)"
    and rep: "reports const err k"
  shows "reports_only const err k"
  unfolding reports_only_def list_all_iff
proof (intro conjI ballI)
  show "reports const err k" by fact
next
  fix j assume "j \<in> set domain_error_kinds"
  show "j = k \<or> \<not> reports const err j"
  proof (rule disjCI)
    assume "\<not> \<not> reports const err j"
    then have "errors_Is err (kind_error const j)" by (simp add: reports_def)
    moreover have "errors_Is err (kind_error const k)" using rep by (simp add: reports_def)
    ultimately have "errors_Is (Some (kind_error const j)) (kind_error const k)
        \<or> errors_Is (Some (kind_error const k)) (kind_error const j)"
      by (rule errors_Is_common)
    then show "j = k" using indep[of j k] indep[of k j] by blast
  qed
qed

subsection \<open>\<^verbatim>\<open>Update\<close> once binding, validation and token extraction have passed\<close>

lemma Update_reaches_service:
  assumes "rest_BindJSON_UpdateUser pkg ctx (UpdateUser_zero pkg) = (request, None)"
    and "validation_Struct_UpdateUser pkg request = None"
    and "jwt_ExtractID pkg (GetHeader ctx ''Authorization'') = Inr accountID"
    and "svc_Update (svc ctrl) accountID request st = (err, st')"
  shows "svc_calls (Update pkg const ctrl ctx st) = [Call_Update accountID request]"
    and "svc_state (Update pkg const ctrl ctx st) = st'"
  using assms by (simp_all add: Update_def split: option.splits)

lemma Update_response_success:
  assumes "rest_BindJSON_UpdateUser pkg ctx (UpdateUser_zero pkg) = (request, None)"
    and "validation_Struct_UpdateUser pkg request = None"
    and "jwt_ExtractID pkg (GetHeader ctx ''Authorization'') = Inr accountID"
    and "svc_Update (svc ctrl) accountID request st = (None, st')"
  shows "response (Update pkg const ctrl ctx st) = ResponseMessage StatusOK"
  using assms by (simp add: Update_def)

lemma Update_response_reports_only:
  assumes "rest_BindJSON_UpdateUser pkg ctx (UpdateUser_zero pkg) = (request, None)"
    and "validation_Struct_UpdateUser pkg request = None"
    and "jwt_ExtractID pkg (GetHeader ctx ''Authorization'') = Inr accountID"
    and "svc_Update (svc ctrl) accountID request st = (err, st')"
    and "reports_only const err k"
  shows "response (Update pkg const ctrl ctx st) =
      ResponseError StatusBadRequest (Detail_map [''accounts'' \<mapsto> Error (kind_error const k)])"
proof -
  from \<open>reports_only const err k\<close> obtain e where e: "err = Some e"
    by (cases err) (simp_all add: reports_only_def reports_def)
  show ?thesis
    using assms unfolding e
    by (cases k)
      (simp_all add: Update_def reports_only_def reports_def domain_error_kinds_def)
qed

lemma Update_response_other:
  assumes "rest_BindJSON_UpdateUser pkg ctx (UpdateUser_zero pkg) = (request, None)"
    and "validation_Struct_UpdateUser pkg request = None"
    and "jwt_ExtractID pkg (GetHeader ctx ''Authorization'') = Inr accountID"
    and "svc_Update (svc ctrl) accountID request st = (Some e, st')"
    and "list_all (\<lambda>k. \<not> reports const (Some e) k) domain_error_kinds"
  shows "response (Update pkg const ctrl ctx st) = ResponseMessage StatusInternalServerError"
  using assms by (simp add: Update_def reports_def domain_error_kinds_def)

lemma Update_response_reports:
  assumes "rest_BindJSON_UpdateUser pkg ctx (UpdateUser_zero pkg) = (request, None)"
    and "validation_Struct_UpdateUser pkg request = None"
    and "jwt_ExtractID pkg (GetHeader ctx ''Authorization'') = Inr accountID"
    and "svc_Update (svc ctrl) accountID request st = (err, st')"
    and "reports const err k"
  shows "\<exists>m. response (Update pkg const ctrl ctx st) =
      ResponseError StatusBadRequest (Detail_map [''accounts'' \<mapsto> m])"
proof -
  from \<open>reports const err k\<close> obtain e where e: "err = Some e"
    by (cases err) (simp_all add: reports_def)
  show ?thesis
    using assms unfolding e
    by (cases k) (auto simp add: Update_def reports_def)
qed

subsection \<open>Requests without a valid token\<close>

text \<open>
  Claim C1, as the code has it. When token extraction fails (the Authorization header is
  missing or invalid), \<^verbatim>\<open>Get\<close> and \<^verbatim>\<open>Delete\<close> answer 401 Unauthorized. \<^verbatim>\<open>Update\<close>
  binds and validates the body before it reads the token: it answers 401 when the body
  binds and passes validation, and 400 Bad Request, whatever the header, when binding or
  validation fails. 401 is neither 400 nor 500.
\<close>

theorem unauthenticated_requests:
  assumes "jwt_ExtractID pkg (GetHeader ctx ''Authorization'') = Inl err"
  shows "response (Get pkg ctrl ctx st) = ResponseMessage StatusUnauthorized
    \<and> response (Delete pkg const ctrl ctx st) = ResponseMessage StatusUnauthorized
    \<and> (snd (rest_BindJSON_UpdateUser pkg ctx (UpdateUser_zero pkg)) = None
        \<and> validation_Struct_UpdateUser pkg
            (fst (rest_BindJSON_UpdateUser pkg ctx (UpdateUser_zero pkg))) = None
       \<longrightarrow> response (Update pkg const ctrl ctx st) = ResponseMessage StatusUnauthorized)
    \<and> (snd (rest_BindJSON_UpdateUser pkg ctx (UpdateUser_zero pkg)) \<noteq> None
        \<or> validation_Struct_UpdateUser pkg
            (fst (rest_BindJSON_UpdateUser pkg ctx (UpdateUser_zero pkg))) \<noteq> None
       \<longrightarrow> status (response (Update pkg const ctrl ctx st)) = StatusBadRequest)
    \<and> StatusUnauthorized \<noteq> StatusBadRequest
    \<and> StatusUnauthorized \<noteq> StatusInternalServerError"
proof -
  have "response (Get pkg ctrl ctx st) = ResponseMessage StatusUnauthorized"
    using assms by (simp add: Get_def)
  moreover have "response (Delete pkg const ctrl ctx st) = ResponseMessage StatusUnauthorized"
    using assms by (simp add: Delete_def)
  moreover have "snd (rest_BindJSON_UpdateUser pkg ctx (UpdateUser_zero pkg)) = None
        \<and> validation_Struct_UpdateUser pkg
            (fst (rest_BindJSON_UpdateUser pkg ctx (UpdateUser_zero pkg))) = None
       \<longrightarrow> response (Update pkg const ctrl ctx st) = ResponseMessage StatusUnauthorized"
    using assms by (cases "rest_BindJSON_UpdateUser pkg ctx (UpdateUser_zero pkg)")
      (simp add: Update_def)
  moreover have "snd (rest_BindJSON_UpdateUser pkg ctx (UpdateUser_zero pkg)) \<noteq> None
        \<or> validation_Struct_UpdateUser pkg
            (fst (rest_BindJSON_UpdateUser pkg ctx (UpdateUser_zero pkg))) \<noteq> None
       \<longrightarrow> status (response (Update pkg const ctrl ctx st)) = StatusBadRequest"
    by (cases "rest_BindJSON_UpdateUser pkg ctx (UpdateUser_zero pkg)")
      (auto simp add: Update_def split: option.splits)
  ultimately show ?thesis by (simp add: http_Status_defs)
qed

theorem unauthenticated_requests_witness:
  \<open>jwt_ExtractID sample_packages
      (GetHeader (anonymous_request ''{"username":"dave","email":"dave@example.org"}'')
         ''Authorization'') = Inl (Error_value 20 ''token is malformed'' None)
   \<and> response (Get sample_packages sample_Controller
        (anonymous_request ''{"username":"dave","email":"dave@example.org"}'') sample_store)
      = ResponseMessage 401
   \<and> response (Delete sample_packages sample_constants sample_Controller
        (anonymous_request ''{"username":"dave","email":"dave@example.org"}'') sample_store)
      = ResponseMessage 401
   \<and> response (Update sample_packages sample_constants sample_Controller
        (anonymous_request ''{"username":"dave","email":"dave@example.org"}'') sample_store)
      = ResponseMessage 401\<close>
proof -
  let ?ctx = \<open>anonymous_request ''{"username":"dave","email":"dave@example.org"}''\<close>
  have tok: "jwt_ExtractID sample_packages (GetHeader ?ctx ''Authorization'')
      = Inl (Error_value 20 ''token is malformed'' None)"
    by (simp add: sample_defs)
  have bound: "rest_BindJSON_UpdateUser sample_packages ?ctx (UpdateUser_zero sample_packages)
      = ((''dave'', ''dave@example.org''), None)"
    by (simp add: sample_defs)
  have valid: "validation_Struct_UpdateUser sample_packages (''dave'', ''dave@example.org'') = None"
    by (simp add: sample_defs)
  show ?thesis
    using unauthenticated_requests [OF tok, of sample_Controller sample_store sample_constants]
      tok bound valid
    by (simp add: StatusUnauthorized_def)
qed

text \<open>
  Claim C1 as stated fails for \<^verbatim>\<open>Update\<close>: a request with no Authorization header and
  the malformed body \<^verbatim>\<open>{\<close> is answered 400 Bad Request, not 401.
\<close>

theorem Update_unauthenticated_counterexample:
  "jwt_ExtractID sample_packages (GetHeader (anonymous_request ''{'') ''Authorization'')
      = Inl (Error_value 20 ''token is malformed'' None)
   \<and> response (Update sample_packages sample_constants sample_Controller
        (anonymous_request ''{'') sample_store)
      = ResponseError 400 (Detail_map [''body'' \<mapsto> ''invalid format''])
   \<and> status (response (Update sample_packages sample_constants sample_Controller
        (anonymous_request ''{'') sample_store)) = StatusBadRequest
   \<and> status (response (Update sample_packages sample_constants sample_Controller
        (anonymous_request ''{'') sample_store)) \<noteq> StatusUnauthorized"
  by (simp add: Update_def sample_defs http_Status_defs)

subsection \<open>\<^verbatim>\<open>Update\<close>: from the error of the service to the response\<close>

text \<open>
  Claim C2. An \<^verbatim>\<open>Update\<close> request that passes binding, validation and token
  extraction is answered from what the service returns: 200 when it succeeds; 400 Bad
  Request with the kind's own message under the field \<^verbatim>\<open>accounts\<close> when the error is of
  one of the eight domain error kinds; 500 Internal Server Error, written by
  \<^verbatim>\<open>rest.ResponseMessage\<close> from the status code alone and so with nothing of the error in
  it, when the error is of none of the eight kinds.
\<close>

theorem Update_service_error_mapping:
  assumes "rest_BindJSON_UpdateUser pkg ctx (UpdateUser_zero pkg) = (request, None)"
    and "validation_Struct_UpdateUser pkg request = None"
    and "jwt_ExtractID pkg (GetHeader ctx ''Authorization'') = Inr accountID"
    and "svc_Update (svc ctrl) accountID request st = (err, st')"
  shows "(err = None \<longrightarrow> response (Update pkg const ctrl ctx st) = ResponseMessage StatusOK)
    \<and> (\<forall>k. reports_only const err k \<longrightarrow>
          response (Update pkg const ctrl ctx st) =
            ResponseError StatusBadRequest
              (Detail_map [''accounts'' \<mapsto> Error (kind_error const k)]))
    \<and> (err \<noteq> None \<and> list_all (\<lambda>k. \<not> reports const err k) domain_error_kinds \<longrightarrow>
          response (Update pkg const ctrl ctx st) = ResponseMessage StatusInternalServerError)"
proof (intro conjI allI impI)
  assume "err = None"
  with assms show "response (Update pkg const ctrl ctx st) = ResponseMessage StatusOK"
    by (simp add: Update_response_success)
next
  fix k assume "reports_only const err k"
  with assms show "response (Update pkg const ctrl ctx st) =
      ResponseError StatusBadRequest (Detail_map [''accounts'' \<mapsto> Error (kind_error const k)])"
    by (rule Update_response_reports_only)
next
  assume other: "err \<noteq> None \<and> list_all (\<lambda>k. \<not> reports const err k) domain_error_kinds"
  then obtain e where e: "err = Some e" by auto
  from assms(1-3) assms(4)[unfolded e] other[unfolded e, THEN conjunct2]
  show "response (Update pkg const ctrl ctx st) = ResponseMessage StatusInternalServerError"
    by (rule Update_response_other)
qed

theorem Update_service_error_mapping_witness:
  \<open>svc_Update (svc sample_Controller) 0 (''dave'', ''dave@example.org'') sample_store
      = (None, [(''dave'', ''dave@example.org''), (''bob'', ''bob@example.org'')])
   \<and> response (Update sample_packages sample_constants sample_Controller
        (request_with ''Bearer token-of-0'' ''{"username":"dave","email":"dave@example.org"}'')
        sample_store) = ResponseMessage 200
   \<and> reports_only sample_constants
        (fst (svc_Update (svc sample_Controller) 0 (''bob'', ''dave@example.org'') sample_store))
        Username_exists
   \<and> response (Update sample_packages sample_constants sample_Controller
        (request_with ''Bearer token-of-0'' ''{"username":"bob","email":"dave@example.org"}'')
        sample_store)
      = ResponseError 400 (Detail_map [''accounts'' \<mapsto> ''username already exist''])
   \<and> fst (svc_Update (svc sample_Controller) 0 (''dave'', ''broken'') sample_store)
      = Some (Error_value 34 ''update accounts: connection reset by peer'' None)
   \<and> response (Update sample_packages sample_constants sample_Controller
        (request_with ''Bearer token-of-0'' ''{"username":"dave","email":"broken"}'')
        sample_store) = ResponseMessage 500\<close>
proof -
  let ?ok = \<open>request_with ''Bearer token-of-0'' ''{"username":"dave","email":"dave@example.org"}''\<close>
  let ?dup = \<open>request_with ''Bearer token-of-0'' ''{"username":"bob","email":"dave@example.org"}''\<close>
  let ?bad = \<open>request_with ''Bearer token-of-0'' ''{"username":"dave","email":"broken"}''\<close>
  have ok:
    "rest_BindJSON_UpdateUser sample_packages ?ok (UpdateUser_zero sample_packages)
      = ((''dave'', ''dave@example.org''), None)"
    "validation_Struct_UpdateUser sample_packages (''dave'', ''dave@example.org'') = None"
    "jwt_ExtractID sample_packages (GetHeader ?ok ''Authorization'') = Inr 0"
    "svc_Update (svc sample_Controller) 0 (''dave'', ''dave@example.org'') sample_store
      = (None, [(''dave'', ''dave@example.org''), (''bob'', ''bob@example.org'')])"
    by (simp_all add: sample_defs)
  have dup:
    "rest_BindJSON_UpdateUser sample_packages ?dup (UpdateUser_zero sample_packages)
      = ((''bob'', ''dave@example.org''), None)"
    "validation_Struct_UpdateUser sample_packages (''bob'', ''dave@example.org'') = None"
    "jwt_ExtractID sample_packages (GetHeader ?dup ''Authorization'') = Inr 0"
    "svc_Update (svc sample_Controller) 0 (''bob'', ''dave@example.org'') sample_store
      = (Some (Error_value 33 ''update account: username already exist''
                (Some (ErrUsernameAlreadyExist sample_constants))), sample_store)"
    by (simp_all add: sample_defs)
  have bad:
    "rest_BindJSON_UpdateUser sample_packages ?bad (UpdateUser_zero sample_packages)
      = ((''dave'', ''broken''), None)"
    "validation_Struct_UpdateUser sample_packages (''dave'', ''broken'') = None"
    "jwt_ExtractID sample_packages (GetHeader ?bad ''Authorization'') = Inr 0"
    "svc_Update (svc sample_Controller) 0 (''dave'', ''broken'') sample_store
      = (Some (Error_value 34 ''update accounts: connection reset by peer'' None), sample_store)"
    by (simp_all add: sample_defs)
  have only: "reports_only sample_constants
      (Some (Error_value 33 ''update account: username already exist''
               (Some (ErrUsernameAlreadyExist sample_constants)))) Username_exists"
    by (simp add: reports_only_def reports_def domain_error_kinds_def sample_constants_def)
  have none: "list_all (\<lambda>k. \<not> reports sample_constants
      (Some (Error_value 34 ''update accounts: connection reset by peer'' None)) k)
      domain_error_kinds"
    by (simp add: reports_def domain_error_kinds_def sample_constants_def)
  show ?thesis
    using Update_service_error_mapping [OF ok, of sample_constants]
      Update_service_error_mapping [OF dup, of sample_constants]
      Update_service_error_mapping [OF bad, of sample_constants]
      ok dup bad only none
    by (simp add: http_Status_defs sample_constants_def)
qed

subsection \<open>\<^verbatim>\<open>Register\<close>\<close>

text \<open>
  Claim C3. A \<^verbatim>\<open>Register\<close> request that passes binding and validation invokes
  \<^verbatim>\<open>Create\<close> of the service, once, on a payload whose username is
  \<^verbatim>\<open>strings.ToLower\<close> of the username bound from the request and whose other fields are
  those bound from the request.
\<close>

theorem Register_lowercases_username:
  assumes "rest_BindJSON_RegisterUser pkg ctx (RegisterUser_zero pkg) = (req, None)"
    and "validation_Struct_RegisterUser pkg req = None"
  shows "\<exists>sent. svc_calls (Register pkg const ctrl ctx st) = [Call_Create sent]
      \<and> Username sent = strings_ToLower pkg (Username req)
      \<and> RegisterUser.more sent = RegisterUser.more req
      \<and> svc_state (Register pkg const ctrl ctx st) = snd (svc_Create (svc ctrl) sent st)"
proof (intro exI conjI)
  let ?sent = "req\<lparr>Username := strings_ToLower pkg (Username req)\<rparr>"
  show "svc_calls (Register pkg const ctrl ctx st) = [Call_Create ?sent]"
    using assms by (simp add: Register_def Let_def case_prod_beta split: option.splits)
  show "svc_state (Register pkg const ctrl ctx st) = snd (svc_Create (svc ctrl) ?sent st)"
    using assms by (simp add: Register_def Let_def case_prod_beta split: option.splits)
  show "Username ?sent = strings_ToLower pkg (Username req)" by simp
  show "RegisterUser.more ?sent = RegisterUser.more req" by simp
qed

theorem Register_lowercases_username_witness:
  \<open>rest_BindJSON_RegisterUser sample_packages (anonymous_request ''{"username":"Carol","email":"Carol@Example.org"}'')
      (RegisterUser_zero sample_packages) = (\<lparr>Username = ''Carol'', Email = ''Carol@Example.org''\<rparr>, None)
   \<and> validation_Struct_RegisterUser sample_packages \<lparr>Username = ''Carol'', Email = ''Carol@Example.org''\<rparr> = None
   \<and> svc_calls (Register sample_packages sample_constants sample_Controller
        (anonymous_request ''{"username":"Carol","email":"Carol@Example.org"}'') sample_store)
      = [Call_Create \<lparr>Username = ''carol'', Email = ''Carol@Example.org''\<rparr>]
   \<and> svc_state (Register sample_packages sample_constants sample_Controller
        (anonymous_request ''{"username":"Carol","email":"Carol@Example.org"}'') sample_store)
      = [(''alice'', ''alice@example.org''), (''bob'', ''bob@example.org''), (''carol'', ''Carol@Example.org'')]\<close>
proof -
  let ?ctx = \<open>anonymous_request ''{"username":"Carol","email":"Carol@Example.org"}''\<close>
  have bound: "rest_BindJSON_RegisterUser sample_packages ?ctx (RegisterUser_zero sample_packages)
      = (\<lparr>Username = ''Carol'', Email = ''Carol@Example.org''\<rparr>, None)"
    by (simp add: sample_defs)
  have valid: "validation_Struct_RegisterUser sample_packages \<lparr>Username = ''Carol'', Email = ''Carol@Example.org''\<rparr> = None"
    by (simp add: sample_defs)
  have lower: "strings_ToLower sample_packages ''Carol'' = ''carol''"
    by (simp add: sample_defs)
  have created: "svc_Create (svc sample_Controller) \<lparr>Username = ''carol'', Email = ''Carol@Example.org''\<rparr> sample_store
      = (None, [(''alice'', ''alice@example.org''), (''bob'', ''bob@example.org''), (''carol'', ''Carol@Example.org'')])"
    by (simp add: sample_defs)
  from Register_lowercases_username [OF bound valid, of sample_constants sample_Controller sample_store]
  obtain sent where sent:
    "svc_calls (Register sample_packages sample_constants sample_Controller ?ctx sample_store)
      = [Call_Create sent]"
    "Username sent = strings_ToLower sample_packages
      (Username \<lparr>Username = ''Carol'', Email = ''Carol@Example.org''\<rparr>)"
    "svc_state (Register sample_packages sample_constants sample_Controller ?ctx sample_store)
      = snd (svc_Create (svc sample_Controller) sent sample_store)"
    "RegisterUser.more sent
      = RegisterUser.more \<lparr>Username = ''Carol'', Email = ''Carol@Example.org''\<rparr>"
    by blast
  from sent(2,4) lower have "sent = \<lparr>Username = ''carol'', Email = ''Carol@Example.org''\<rparr>"
    by (cases sent) simp
  with sent(1,3) created bound valid show ?thesis by simp
qed

text \<open>
  Claim C4. A \<^verbatim>\<open>Register\<close> request that reaches the service is answered 409 Conflict
  when the error of the service matches \<^verbatim>\<open>constant.ErrAccountExist\<close>, 500 Internal
  Server Error on any other error, and 201 Created when the service succeeds.
\<close>

theorem Register_service_result:
  assumes "rest_BindJSON_RegisterUser pkg ctx (RegisterUser_zero pkg) = (req, None)"
    and "validation_Struct_RegisterUser pkg req = None"
    and "svc_Create (svc ctrl) (req\<lparr>Username := strings_ToLower pkg (Username req)\<rparr>) st
          = (err, st')"
  shows "(errors_Is err (ErrAccountExist const) \<longrightarrow>
            response (Register pkg const ctrl ctx st) =
              ResponseError StatusConflict
                (Detail_map [''account'' \<mapsto> Error (ErrAccountExist const)]))
    \<and> (err \<noteq> None \<and> \<not> errors_Is err (ErrAccountExist const) \<longrightarrow>
            response (Register pkg const ctrl ctx st) = ResponseMessage StatusInternalServerError)
    \<and> (err = None \<longrightarrow>
            response (Register pkg const ctrl ctx st) = ResponseMessage StatusCreated)"
  using assms by (auto simp add: Register_def Let_def)

theorem Register_service_result_witness:
  \<open>response (Register sample_packages sample_constants sample_Controller
      (anonymous_request ''{"username":"Alice","email":"Alice@Example.net"}'') sample_store)
      = ResponseError 409 (Detail_map [''account'' \<mapsto> ''account already exist''])
   \<and> response (Register sample_packages sample_constants sample_Controller
      (anonymous_request ''{"username":"Zed-Full","email":"zed@example.org"}'') sample_store) = ResponseMessage 500
   \<and> response (Register sample_packages sample_constants sample_Controller
      (anonymous_request ''{"username":"Carol","email":"Carol@Example.org"}'') sample_store) = ResponseMessage 201\<close>
proof -
  let ?dup = \<open>anonymous_request ''{"username":"Alice","email":"Alice@Example.net"}''\<close>
  let ?full = \<open>anonymous_request ''{"username":"Zed-Full","email":"zed@example.org"}''\<close>
  let ?new = \<open>anonymous_request ''{"username":"Carol","email":"Carol@Example.org"}''\<close>
  have dup:
    "rest_BindJSON_RegisterUser sample_packages ?dup (RegisterUser_zero sample_packages)
      = (\<lparr>Username = ''Alice'', Email = ''Alice@Example.net''\<rparr>, None)"
    "validation_Struct_RegisterUser sample_packages \<lparr>Username = ''Alice'', Email = ''Alice@Example.net''\<rparr> = None"
    "svc_Create (svc sample_Controller)
       (\<lparr>Username = ''Alice'', Email = ''Alice@Example.net''\<rparr>\<lparr>Username :=
          strings_ToLower sample_packages (Username \<lparr>Username = ''Alice'', Email = ''Alice@Example.net''\<rparr>)\<rparr>) sample_store
      = (Some (Error_value 31 ''create account: account already exist''
                 (Some (ErrAccountExist sample_constants))), sample_store)"
    by (simp_all add: sample_defs)
  have full:
    "rest_BindJSON_RegisterUser sample_packages ?full (RegisterUser_zero sample_packages)
      = (\<lparr>Username = ''Zed-Full'', Email = ''zed@example.org''\<rparr>, None)"
    "validation_Struct_RegisterUser sample_packages \<lparr>Username = ''Zed-Full'', Email = ''zed@example.org''\<rparr> = None"
    "svc_Create (svc sample_Controller)
       (\<lparr>Username = ''Zed-Full'', Email = ''zed@example.org''\<rparr>\<lparr>Username :=
          strings_ToLower sample_packages (Username \<lparr>Username = ''Zed-Full'', Email = ''zed@example.org''\<rparr>)\<rparr>) sample_store
      = (Some (Error_value 32 ''insert accounts: disk full'' None), sample_store)"
    by (simp_all add: sample_defs)
  have new:
    "rest_BindJSON_RegisterUser sample_packages ?new (RegisterUser_zero sample_packages)
      = (\<lparr>Username = ''Carol'', Email = ''Carol@Example.org''\<rparr>, None)"
    "validation_Struct_RegisterUser sample_packages \<lparr>Username = ''Carol'', Email = ''Carol@Example.org''\<rparr> = None"
    "svc_Create (svc sample_Controller)
       (\<lparr>Username = ''Carol'', Email = ''Carol@Example.org''\<rparr>\<lparr>Username :=
          strings_ToLower sample_packages (Username \<lparr>Username = ''Carol'', Email = ''Carol@Example.org''\<rparr>)\<rparr>) sample_store
      = (None, sample_store @ [(''carol'', ''Carol@Example.org'')])"
    by (simp_all add: sample_defs)
  show ?thesis
    using Register_service_result [OF dup, of sample_constants]
      Register_service_result [OF full, of sample_constants]
      Register_service_result [OF new, of sample_constants]
    by (simp add: http_Status_defs sample_constants_def)
qed

text \<open>
  Claim C5. A \<^verbatim>\<open>Register\<close> request whose body does not bind, or whose bound payload
  fails validation, is answered 400 Bad Request; no method of the service is invoked and
  the state of the service is as before.
\<close>

theorem Register_rejects_bad_payload:
  assumes "snd (rest_BindJSON_RegisterUser pkg ctx (RegisterUser_zero pkg)) \<noteq> None
      \<or> validation_Struct_RegisterUser pkg
           (fst (rest_BindJSON_RegisterUser pkg ctx (RegisterUser_zero pkg))) \<noteq> None"
  shows "status (response (Register pkg const ctrl ctx st)) = StatusBadRequest
    \<and> svc_calls (Register pkg const ctrl ctx st) = []
    \<and> svc_state (Register pkg const ctrl ctx st) = st"
  using assms
  by (cases "rest_BindJSON_RegisterUser pkg ctx (RegisterUser_zero pkg)")
    (auto simp add: Register_def split: option.splits)

theorem Register_rejects_bad_payload_witness:
  \<open>snd (rest_BindJSON_RegisterUser sample_packages (anonymous_request ''{"username":'')
      (RegisterUser_zero sample_packages)) \<noteq> None
   \<and> response (Register sample_packages sample_constants sample_Controller
        (anonymous_request ''{"username":'') sample_store)
      = ResponseError 400 (Detail_map [''body'' \<mapsto> ''invalid format''])
   \<and> svc_calls (Register sample_packages sample_constants sample_Controller
        (anonymous_request ''{"username":'') sample_store) = []
   \<and> snd (rest_BindJSON_RegisterUser sample_packages (anonymous_request ''{}'')
      (RegisterUser_zero sample_packages)) = None
   \<and> validation_Struct_RegisterUser sample_packages
        (fst (rest_BindJSON_RegisterUser sample_packages (anonymous_request ''{}'')
          (RegisterUser_zero sample_packages))) \<noteq> None
   \<and> status (response (Register sample_packages sample_constants sample_Controller
        (anonymous_request ''{}'') sample_store)) = 400
   \<and> svc_calls (Register sample_packages sample_constants sample_Controller
        (anonymous_request ''{}'') sample_store) = []
   \<and> svc_state (Register sample_packages sample_constants sample_Controller
        (anonymous_request ''{}'') sample_store) = sample_store\<close>
proof -
  let ?cut = \<open>anonymous_request ''{"username":''\<close>
  let ?empty = \<open>anonymous_request ''{}''\<close>
  have cut: "snd (rest_BindJSON_RegisterUser sample_packages ?cut
      (RegisterUser_zero sample_packages)) \<noteq> None"
    by (simp add: sample_defs)
  have empty: "snd (rest_BindJSON_RegisterUser sample_packages ?empty
        (RegisterUser_zero sample_packages)) = None"
      "validation_Struct_RegisterUser sample_packages
        (fst (rest_BindJSON_RegisterUser sample_packages ?empty
          (RegisterUser_zero sample_packages))) \<noteq> None"
    by (simp_all add: sample_defs)
  have body_message: "response (Register sample_packages sample_constants sample_Controller
        ?cut sample_store) = ResponseError 400 (Detail_map [''body'' \<mapsto> ''invalid format''])"
    by (simp add: Register_def sample_defs http_Status_defs)
  show ?thesis
    using Register_rejects_bad_payload [OF disjI1, OF cut,
        of sample_constants sample_Controller sample_store]
      Register_rejects_bad_payload [OF disjI2, OF empty(2),
        of sample_constants sample_Controller sample_store]
      cut empty body_message
    by (simp add: http_Status_defs)
qed

subsection \<open>\<^verbatim>\<open>Get\<close> and \<^verbatim>\<open>Delete\<close>\<close>

text \<open>
  Claim C6. \<^verbatim>\<open>Get\<close> answers 401 when token extraction fails; otherwise 500 when
  \<^verbatim>\<open>TakeAccountByID\<close> of the service fails; otherwise 200 with the very account view
  the service returned as the payload.
\<close>

theorem Get_response:
  "(\<forall>err. jwt_ExtractID pkg (GetHeader ctx ''Authorization'') = Inl err \<longrightarrow>
      response (Get pkg ctrl ctx st) = ResponseMessage StatusUnauthorized)
   \<and> (\<forall>accountID err. jwt_ExtractID pkg (GetHeader ctx ''Authorization'') = Inr accountID
        \<and> fst (svc_TakeAccountByID (svc ctrl) accountID st) = Inl err \<longrightarrow>
      response (Get pkg ctrl ctx st) = ResponseMessage StatusInternalServerError)
   \<and> (\<forall>accountID view. jwt_ExtractID pkg (GetHeader ctx ''Authorization'') = Inr accountID
        \<and> fst (svc_TakeAccountByID (svc ctrl) accountID st) = Inr view \<longrightarrow>
      response (Get pkg ctrl ctx st) = ResponseData StatusOK view)"
  by (auto simp add: Get_def split: prod.splits sum.splits)

theorem Get_response_witness:
  "jwt_ExtractID sample_packages
      (GetHeader (request_with ''Bearer expired'' []) ''Authorization'')
      = Inl (Error_value 20 ''token is malformed'' None)
   \<and> response (Get sample_packages sample_Controller
        (request_with ''Bearer expired'' []) sample_store) = ResponseMessage 401
   \<and> fst (svc_TakeAccountByID (svc sample_Controller) 7 sample_store)
      = Inl (Error_value 30 ''record not found'' None)
   \<and> response (Get sample_packages sample_Controller
        (request_with ''Bearer token-of-7'' []) sample_store) = ResponseMessage 500
   \<and> fst (svc_TakeAccountByID (svc sample_Controller) 1 sample_store)
      = Inr (''bob'', ''bob@example.org'')
   \<and> response (Get sample_packages sample_Controller
        (request_with ''Bearer token-of-1'' []) sample_store)
      = ResponseData 200 (''bob'', ''bob@example.org'')"
proof -
  have expired: "jwt_ExtractID sample_packages
      (GetHeader (request_with ''Bearer expired'' []) ''Authorization'')
      = Inl (Error_value 20 ''token is malformed'' None)"
    by (simp add: sample_defs)
  have missing: "jwt_ExtractID sample_packages
      (GetHeader (request_with ''Bearer token-of-7'' []) ''Authorization'') = Inr 7"
    "fst (svc_TakeAccountByID (svc sample_Controller) 7 sample_store)
      = Inl (Error_value 30 ''record not found'' None)"
    by (simp_all add: sample_defs)
  have found: "jwt_ExtractID sample_packages
      (GetHeader (request_with ''Bearer token-of-1'' []) ''Authorization'') = Inr 1"
    "fst (svc_TakeAccountByID (svc sample_Controller) 1 sample_store)
      = Inr (''bob'', ''bob@example.org'')"
    by (simp_all add: sample_defs)
  show ?thesis
    using Get_response [of sample_packages "request_with ''Bearer expired'' []"
        sample_Controller sample_store]
      Get_response [of sample_packages "request_with ''Bearer token-of-7'' []"
        sample_Controller sample_store]
      Get_response [of sample_packages "request_with ''Bearer token-of-1'' []"
        sample_Controller sample_store]
      expired missing found
    by (simp add: http_Status_defs)
qed

text \<open>
  Claim C7. A \<^verbatim>\<open>Delete\<close> request that passes token extraction is answered 400 Bad
  Request when the error of the service matches \<^verbatim>\<open>constant.ErrAccountNotRegistered\<close>,
  500 Internal Server Error on any other error, and 200 when the service succeeds.
\<close>

theorem Delete_service_result:
  assumes "jwt_ExtractID pkg (GetHeader ctx ''Authorization'') = Inr accountID"
    and "svc_Delete (svc ctrl) accountID st = (err, st')"
  shows "(errors_Is err (ErrAccountNotRegistered const) \<longrightarrow>
            response (Delete pkg const ctrl ctx st) =
              ResponseError StatusBadRequest
                (Detail_map [''accounts'' \<mapsto> Error (ErrAccountNotRegistered const)]))
    \<and> (err \<noteq> None \<and> \<not> errors_Is err (ErrAccountNotRegistered const) \<longrightarrow>
            response (Delete pkg const ctrl ctx st) = ResponseMessage StatusInternalServerError)
    \<and> (err = None \<longrightarrow> response (Delete pkg const ctrl ctx st) = ResponseMessage StatusOK)"
  using assms by (cases err) (simp_all add: Delete_def)

theorem Delete_service_result_witness:
  "response (Delete sample_packages sample_constants sample_Controller
      (request_with ''Bearer token-of-7'' []) sample_store)
      = ResponseError 400 (Detail_map [''accounts'' \<mapsto> ''account not registered''])
   \<and> response (Delete sample_packages sample_constants sample_Controller
      (request_with ''Bearer token-of-0'' []) root_store) = ResponseMessage 500
   \<and> response (Delete sample_packages sample_constants sample_Controller
      (request_with ''Bearer token-of-1'' []) sample_store) = ResponseMessage 200"
proof -
  have unknown: "jwt_ExtractID sample_packages
      (GetHeader (request_with ''Bearer token-of-7'' []) ''Authorization'') = Inr 7"
    "svc_Delete (svc sample_Controller) 7 sample_store
      = (Some (ErrAccountNotRegistered sample_constants), sample_store)"
    by (simp_all add: sample_defs)
  have denied: "jwt_ExtractID sample_packages
      (GetHeader (request_with ''Bearer token-of-0'' []) ''Authorization'') = Inr 0"
    "svc_Delete (svc sample_Controller) 0 root_store
      = (Some (Error_value 35 ''delete accounts: permission denied'' None), root_store)"
    by (simp_all add: sample_defs)
  have deleted: "jwt_ExtractID sample_packages
      (GetHeader (request_with ''Bearer token-of-1'' []) ''Authorization'') = Inr 1"
    "svc_Delete (svc sample_Controller) 1 sample_store = (None, [(''alice'', ''alice@example.org'')])"
    by (simp_all add: sample_defs)
  show ?thesis
    using Delete_service_result [OF unknown, of sample_constants]
      Delete_service_result [OF denied, of sample_constants]
      Delete_service_result [OF deleted, of sample_constants]
    by (simp add: http_Status_defs sample_constants_def)
qed

subsection \<open>The field keys of error responses\<close>

text \<open>
  Claim C8. When the error of the service reports username-already-exists, \<^verbatim>\<open>Update\<close>
  answers 400 Bad Request with a message under the field \<^verbatim>\<open>accounts\<close>. When the error
  is of that kind alone, the message is the text of
  \<^verbatim>\<open>constant.ErrUsernameAlreadyExist\<close>; a second request whose error is of the kind
  email-already-exists alone gets the text of \<^verbatim>\<open>constant.ErrEmailAlreadyExist\<close>, so the
  two messages differ whenever the two texts do.
\<close>

theorem Update_username_exists_message:
  assumes "rest_BindJSON_UpdateUser pkg ctx (UpdateUser_zero pkg) = (request, None)"
    and "validation_Struct_UpdateUser pkg request = None"
    and "jwt_ExtractID pkg (GetHeader ctx ''Authorization'') = Inr accountID"
    and "svc_Update (svc ctrl) accountID request st = (err, st')"
    and "reports const err Username_exists"
  shows "status (response (Update pkg const ctrl ctx st)) = StatusBadRequest
    \<and> dom (field_message (response (Update pkg const ctrl ctx st))) = {''accounts''}
    \<and> (reports_only const err Username_exists
        \<and> rest_BindJSON_UpdateUser pkg ctx2 (UpdateUser_zero pkg) = (request2, None)
        \<and> validation_Struct_UpdateUser pkg request2 = None
        \<and> jwt_ExtractID pkg (GetHeader ctx2 ''Authorization'') = Inr accountID2
        \<and> svc_Update (svc ctrl) accountID2 request2 st2 = (err2, st2')
        \<and> reports_only const err2 Email_exists
        \<and> Error (ErrUsernameAlreadyExist const) \<noteq> Error (ErrEmailAlreadyExist const)
       \<longrightarrow> field_message (response (Update pkg const ctrl ctx st)) ''accounts''
              = Some (Error (ErrUsernameAlreadyExist const))
         \<and> field_message (response (Update pkg const ctrl ctx2 st2)) ''accounts''
              = Some (Error (ErrEmailAlreadyExist const))
         \<and> field_message (response (Update pkg const ctrl ctx st)) ''accounts''
              \<noteq> field_message (response (Update pkg const ctrl ctx2 st2)) ''accounts'')"
proof (intro conjI impI)
  from Update_response_reports [OF assms]
  obtain m where m: "response (Update pkg const ctrl ctx st) =
      ResponseError StatusBadRequest (Detail_map [''accounts'' \<mapsto> m])"
    by blast
  show "status (response (Update pkg const ctrl ctx st)) = StatusBadRequest"
    by (simp add: m)
  show "dom (field_message (response (Update pkg const ctrl ctx st))) = {''accounts''}"
    by (simp add: m)
next
  assume both: "reports_only const err Username_exists
        \<and> rest_BindJSON_UpdateUser pkg ctx2 (UpdateUser_zero pkg) = (request2, None)
        \<and> validation_Struct_UpdateUser pkg request2 = None
        \<and> jwt_ExtractID pkg (GetHeader ctx2 ''Authorization'') = Inr accountID2
        \<and> svc_Update (svc ctrl) accountID2 request2 st2 = (err2, st2')
        \<and> reports_only const err2 Email_exists
        \<and> Error (ErrUsernameAlreadyExist const) \<noteq> Error (ErrEmailAlreadyExist const)"
  then have b: "reports_only const err Username_exists"
      "rest_BindJSON_UpdateUser pkg ctx2 (UpdateUser_zero pkg) = (request2, None)"
      "validation_Struct_UpdateUser pkg request2 = None"
      "jwt_ExtractID pkg (GetHeader ctx2 ''Authorization'') = Inr accountID2"
      "svc_Update (svc ctrl) accountID2 request2 st2 = (err2, st2')"
      "reports_only const err2 Email_exists"
    by simp_all
  have first: "response (Update pkg const ctrl ctx st) =
      ResponseError StatusBadRequest
        (Detail_map [''accounts'' \<mapsto> Error (kind_error const Username_exists)])"
    by (rule Update_response_reports_only [OF assms(1-4) b(1)])
  have second: "response (Update pkg const ctrl ctx2 st2) =
      ResponseError StatusBadRequest
        (Detail_map [''accounts'' \<mapsto> Error (kind_error const Email_exists)])"
    by (rule Update_response_reports_only [OF b(2-6)])
  show "field_message (response (Update pkg const ctrl ctx st)) ''accounts''
      = Some (Error (ErrUsernameAlreadyExist const))"
    by (simp add: first)
  show "field_message (response (Update pkg const ctrl ctx2 st2)) ''accounts''
      = Some (Error (ErrEmailAlreadyExist const))"
    by (simp add: second)
  show "field_message (response (Update pkg const ctrl ctx st)) ''accounts''
      \<noteq> field_message (response (Update pkg const ctrl ctx2 st2)) ''accounts''"
    using both by (simp add: first second)
qed

theorem Update_username_exists_message_witness:
  \<open>reports_only sample_constants
      (fst (svc_Update (svc sample_Controller) 0 (''bob'', ''dave@example.org'') sample_store))
      Username_exists
   \<and> reports_only sample_constants
      (fst (svc_Update (svc sample_Controller) 0 (''dave'', ''bob@example.org'') sample_store))
      Email_exists
   \<and> status (response (Update sample_packages sample_constants sample_Controller
        (request_with ''Bearer token-of-0'' ''{"username":"bob","email":"dave@example.org"}'')
        sample_store)) = 400
   \<and> field_message (response (Update sample_packages sample_constants sample_Controller
        (request_with ''Bearer token-of-0'' ''{"username":"bob","email":"dave@example.org"}'')
        sample_store)) ''accounts'' = Some ''username already exist''
   \<and> field_message (response (Update sample_packages sample_constants sample_Controller
        (request_with ''Bearer token-of-0'' ''{"username":"dave","email":"bob@example.org"}'')
        sample_store)) ''accounts'' = Some ''email already exist''\<close>
proof -
  let ?name = \<open>request_with ''Bearer token-of-0'' ''{"username":"bob","email":"dave@example.org"}''\<close>
  let ?mail = \<open>request_with ''Bearer token-of-0'' ''{"username":"dave","email":"bob@example.org"}''\<close>
  have name:
    "rest_BindJSON_UpdateUser sample_packages ?name (UpdateUser_zero sample_packages)
      = ((''bob'', ''dave@example.org''), None)"
    "validation_Struct_UpdateUser sample_packages (''bob'', ''dave@example.org'') = None"
    "jwt_ExtractID sample_packages (GetHeader ?name ''Authorization'') = Inr 0"
    "svc_Update (svc sample_Controller) 0 (''bob'', ''dave@example.org'') sample_store
      = (Some (Error_value 33 ''update account: username already exist''
                (Some (ErrUsernameAlreadyExist sample_constants))), sample_store)"
    by (simp_all add: sample_defs)
  have mail:
    "rest_BindJSON_UpdateUser sample_packages ?mail (UpdateUser_zero sample_packages)
      = ((''dave'', ''bob@example.org''), None)"
    "validation_Struct_UpdateUser sample_packages (''dave'', ''bob@example.org'') = None"
    "jwt_ExtractID sample_packages (GetHeader ?mail ''Authorization'') = Inr 0"
    "svc_Update (svc sample_Controller) 0 (''dave'', ''bob@example.org'') sample_store
      = (Some (ErrEmailAlreadyExist sample_constants), sample_store)"
    by (simp_all add: sample_defs)
  have only_name: "reports_only sample_constants
      (Some (Error_value 33 ''update account: username already exist''
               (Some (ErrUsernameAlreadyExist sample_constants)))) Username_exists"
    by (simp add: reports_only_def reports_def domain_error_kinds_def sample_constants_def)
  then have rep: "reports sample_constants
      (Some (Error_value 33 ''update account: username already exist''
               (Some (ErrUsernameAlreadyExist sample_constants)))) Username_exists"
    by (simp add: reports_only_def)
  have only_mail: "reports_only sample_constants
      (Some (ErrEmailAlreadyExist sample_constants)) Email_exists"
    by (simp add: reports_only_def reports_def domain_error_kinds_def sample_constants_def)
  have texts: "Error (ErrUsernameAlreadyExist sample_constants)
      \<noteq> Error (ErrEmailAlreadyExist sample_constants)"
    by (simp add: sample_constants_def)
  show ?thesis
    using Update_username_exists_message [OF name rep, of ?mail "(''dave'', ''bob@example.org'')"
        0 sample_store "Some (ErrEmailAlreadyExist sample_constants)" sample_store]
      name mail only_name only_mail texts
    by (simp add: http_Status_defs sample_constants_def)
qed

text \<open>
  Claim C9. The key of the message differs between operations: a body that does not bind
  is answered under \<^verbatim>\<open>body\<close> by \<^verbatim>\<open>Register\<close> and by \<^verbatim>\<open>Update\<close>; the conflict of
  \<^verbatim>\<open>Register\<close> is answered under \<^verbatim>\<open>account\<close>; every domain error of \<^verbatim>\<open>Update\<close>
  and the not-registered error of \<^verbatim>\<open>Delete\<close> are answered, with 400, under
  \<^verbatim>\<open>accounts\<close>.
\<close>

theorem error_field_keys:
  "(snd (rest_BindJSON_RegisterUser pkg ctx (RegisterUser_zero pkg)) \<noteq> None \<longrightarrow>
      dom (field_message (response (Register pkg const ctrl ctx st))) = {''body''})
   \<and> (snd (rest_BindJSON_UpdateUser pkg ctx (UpdateUser_zero pkg)) \<noteq> None \<longrightarrow>
      dom (field_message (response (Update pkg const ctrl ctx st))) = {''body''})
   \<and> (rest_BindJSON_RegisterUser pkg ctx (RegisterUser_zero pkg) = (req, None)
      \<and> validation_Struct_RegisterUser pkg req = None
      \<and> errors_Is
          (fst (svc_Create (svc ctrl) (req\<lparr>Username := strings_ToLower pkg (Username req)\<rparr>) st))
          (ErrAccountExist const) \<longrightarrow>
      status (response (Register pkg const ctrl ctx st)) = StatusConflict
      \<and> dom (field_message (response (Register pkg const ctrl ctx st))) = {''account''})
   \<and> (rest_BindJSON_UpdateUser pkg ctx (UpdateUser_zero pkg) = (request, None)
      \<and> validation_Struct_UpdateUser pkg request = None
      \<and> jwt_ExtractID pkg (GetHeader ctx ''Authorization'') = Inr accountID
      \<and> reports const (fst (svc_Update (svc ctrl) accountID request st)) k \<longrightarrow>
      status (response (Update pkg const ctrl ctx st)) = StatusBadRequest
      \<and> dom (field_message (response (Update pkg const ctrl ctx st))) = {''accounts''})
   \<and> (jwt_ExtractID pkg (GetHeader ctx ''Authorization'') = Inr accountID
      \<and> errors_Is (fst (svc_Delete (svc ctrl) accountID st)) (ErrAccountNotRegistered const) \<longrightarrow>
      status (response (Delete pkg const ctrl ctx st)) = StatusBadRequest
      \<and> dom (field_message (response (Delete pkg const ctrl ctx st))) = {''accounts''})
   \<and> ''account'' \<noteq> ''accounts''"
proof (intro conjI impI)
  assume "snd (rest_BindJSON_RegisterUser pkg ctx (RegisterUser_zero pkg)) \<noteq> None"
  then have "response (Register pkg const ctrl ctx st) =
      ResponseError StatusBadRequest (Detail_map [''body'' \<mapsto> Error (ErrInvalidFormat const)])"
    by (cases "rest_BindJSON_RegisterUser pkg ctx (RegisterUser_zero pkg)")
      (auto simp add: Register_def)
  then show "dom (field_message (response (Register pkg const ctrl ctx st))) = {''body''}"
    by simp
next
  assume "snd (rest_BindJSON_UpdateUser pkg ctx (UpdateUser_zero pkg)) \<noteq> None"
  then have "response (Update pkg const ctrl ctx st) =
      ResponseError StatusBadRequest (Detail_map [''body'' \<mapsto> Error (ErrInvalidFormat const)])"
    by (cases "rest_BindJSON_UpdateUser pkg ctx (UpdateUser_zero pkg)")
      (auto simp add: Update_def)
  then show "dom (field_message (response (Update pkg const ctrl ctx st))) = {''body''}"
    by simp
next
  assume conflict: "rest_BindJSON_RegisterUser pkg ctx (RegisterUser_zero pkg) = (req, None)
      \<and> validation_Struct_RegisterUser pkg req = None
      \<and> errors_Is
          (fst (svc_Create (svc ctrl) (req\<lparr>Username := strings_ToLower pkg (Username req)\<rparr>) st))
          (ErrAccountExist const)"
  then have r: "response (Register pkg const ctrl ctx st) =
      ResponseError StatusConflict (Detail_map [''account'' \<mapsto> Error (ErrAccountExist const)])"
    by (simp add: Register_def Let_def case_prod_beta)
  show "status (response (Register pkg const ctrl ctx st)) = StatusConflict"
    by (simp add: r)
  show "dom (field_message (response (Register pkg const ctrl ctx st))) = {''account''}"
    by (simp add: r)
next
  assume domain: "rest_BindJSON_UpdateUser pkg ctx (UpdateUser_zero pkg) = (request, None)
      \<and> validation_Struct_UpdateUser pkg request = None
      \<and> jwt_ExtractID pkg (GetHeader ctx ''Authorization'') = Inr accountID
      \<and> reports const (fst (svc_Update (svc ctrl) accountID request st)) k"
  have "\<exists>m. response (Update pkg const ctrl ctx st) =
      ResponseError StatusBadRequest (Detail_map [''accounts'' \<mapsto> m])"
    using domain
    by (intro Update_response_reports
        [where err = "fst (svc_Update (svc ctrl) accountID request st)"
           and st' = "snd (svc_Update (svc ctrl) accountID request st)" and k = k])
      simp_all
  then obtain m where m: "response (Update pkg const ctrl ctx st) =
      ResponseError StatusBadRequest (Detail_map [''accounts'' \<mapsto> m])"
    by blast
  show "status (response (Update pkg const ctrl ctx st)) = StatusBadRequest"
    by (simp add: m)
  show "dom (field_message (response (Update pkg const ctrl ctx st))) = {''accounts''}"
    by (simp add: m)
next
  assume gone: "jwt_ExtractID pkg (GetHeader ctx ''Authorization'') = Inr accountID
      \<and> errors_Is (fst (svc_Delete (svc ctrl) accountID st)) (ErrAccountNotRegistered const)"
  then have r: "response (Delete pkg const ctrl ctx st) =
      ResponseError StatusBadRequest
        (Detail_map [''accounts'' \<mapsto> Error (ErrAccountNotRegistered const)])"
    by (cases "svc_Delete (svc ctrl) accountID st"; cases "fst (svc_Delete (svc ctrl) accountID st)")
      (simp_all add: Delete_def)
  show "status (response (Delete pkg const ctrl ctx st)) = StatusBadRequest"
    by (simp add: r)
  show "dom (field_message (response (Delete pkg const ctrl ctx st))) = {''accounts''}"
    by (simp add: r)
next
  show "''account'' \<noteq> ''accounts''" by simp
qed

theorem error_field_keys_witness:
  \<open>dom (field_message (response (Register sample_packages sample_constants sample_Controller
      (request_with ''Bearer token-of-7'' ''{'') sample_store))) = {''body''}
   \<and> dom (field_message (response (Update sample_packages sample_constants sample_Controller
      (request_with ''Bearer token-of-7'' ''{'') sample_store))) = {''body''}
   \<and> dom (field_message (response (Register sample_packages sample_constants sample_Controller
      (anonymous_request ''{"username":"Alice","email":"Alice@Example.net"}'') sample_store)))
      = {''account''}
   \<and> dom (field_message (response (Update sample_packages sample_constants sample_Controller
      (request_with ''Bearer token-of-7'' ''{"username":"dave","email":"dave@example.org"}'')
      sample_store))) = {''accounts''}
   \<and> dom (field_message (response (Delete sample_packages sample_constants sample_Controller
      (request_with ''Bearer token-of-7'' ''{'') sample_store))) = {''accounts''}\<close>
proof -
  let ?cut = \<open>request_with ''Bearer token-of-7'' ''{''\<close>
  let ?dup = \<open>anonymous_request ''{"username":"Alice","email":"Alice@Example.net"}''\<close>
  let ?upd = \<open>request_with ''Bearer token-of-7'' ''{"username":"dave","email":"dave@example.org"}''\<close>
  have cut:
    "snd (rest_BindJSON_RegisterUser sample_packages ?cut (RegisterUser_zero sample_packages))
      \<noteq> None"
    "snd (rest_BindJSON_UpdateUser sample_packages ?cut (UpdateUser_zero sample_packages))
      \<noteq> None"
    "jwt_ExtractID sample_packages (GetHeader ?cut ''Authorization'') = Inr 7"
    "errors_Is (fst (svc_Delete (svc sample_Controller) 7 sample_store))
      (ErrAccountNotRegistered sample_constants)"
    by (simp_all add: sample_defs)
  have dup:
    "rest_BindJSON_RegisterUser sample_packages ?dup (RegisterUser_zero sample_packages)
      = (\<lparr>Username = ''Alice'', Email = ''Alice@Example.net''\<rparr>, None)"
    "validation_Struct_RegisterUser sample_packages
      \<lparr>Username = ''Alice'', Email = ''Alice@Example.net''\<rparr> = None"
    "errors_Is (fst (svc_Create (svc sample_Controller)
        (\<lparr>Username = ''Alice'', Email = ''Alice@Example.net''\<rparr>\<lparr>Username :=
          strings_ToLower sample_packages
            (Username \<lparr>Username = ''Alice'', Email = ''Alice@Example.net''\<rparr>)\<rparr>) sample_store))
      (ErrAccountExist sample_constants)"
    by (simp_all add: sample_defs)
  have upd:
    "rest_BindJSON_UpdateUser sample_packages ?upd (UpdateUser_zero sample_packages)
      = ((''dave'', ''dave@example.org''), None)"
    "validation_Struct_UpdateUser sample_packages (''dave'', ''dave@example.org'') = None"
    "jwt_ExtractID sample_packages (GetHeader ?upd ''Authorization'') = Inr 7"
    "reports sample_constants
      (fst (svc_Update (svc sample_Controller) 7 (''dave'', ''dave@example.org'') sample_store))
      Not_registered"
    by (simp_all add: sample_defs reports_def)
  show ?thesis
    using error_field_keys [of sample_packages ?cut sample_constants sample_Controller
        sample_store _ _ 7]
      error_field_keys [of sample_packages ?dup sample_constants sample_Controller sample_store
        "\<lparr>Username = ''Alice'', Email = ''Alice@Example.net''\<rparr>"]
      error_field_keys [of sample_packages ?upd sample_constants sample_Controller sample_store
        _ "(''dave'', ''dave@example.org'')" 7 Not_registered]
      cut dup upd
    by simp
qed

subsection \<open>Invocations of the service\<close>

lemma Get_replay:
  "svc_state (Get pkg ctrl ctx st) = replay (svc ctrl) (svc_calls (Get pkg ctrl ctx st)) st"
  by (simp add: Get_def replay_def split: sum.splits prod.splits)

lemma Register_replay:
  "svc_state (Register pkg const ctrl ctx st) =
    replay (svc ctrl) (svc_calls (Register pkg const ctrl ctx st)) st"
  by (simp add: Register_def replay_def Let_def split: option.splits prod.splits)

lemma Update_replay:
  "svc_state (Update pkg const ctrl ctx st) =
    replay (svc ctrl) (svc_calls (Update pkg const ctrl ctx st)) st"
  by (simp add: Update_def replay_def split: option.splits prod.splits sum.splits)

lemma Delete_replay:
  "svc_state (Delete pkg const ctrl ctx st) =
    replay (svc ctrl) (svc_calls (Delete pkg const ctrl ctx st)) st"
  by (simp add: Delete_def replay_def split: option.splits prod.splits sum.splits)

lemma Get_calls: "length (svc_calls (Get pkg ctrl ctx st)) \<le> 1"
  by (simp add: Get_def split: sum.splits prod.splits)

lemma Register_calls: "length (svc_calls (Register pkg const ctrl ctx st)) \<le> 1"
  by (simp add: Register_def Let_def split: option.splits prod.splits)

lemma Update_calls: "length (svc_calls (Update pkg const ctrl ctx st)) \<le> 1"
  by (simp add: Update_def split: option.splits prod.splits sum.splits)

lemma Delete_calls: "length (svc_calls (Delete pkg const ctrl ctx st)) \<le> 1"
  by (simp add: Delete_def split: option.splits prod.splits sum.splits)

text \<open>
  Claim C10. Each handler invokes the service at most once, and its effect on the state of
  the service is that of the invocations it made. When a step before the service fails
  (token extraction in \<^verbatim>\<open>Get\<close> and \<^verbatim>\<open>Delete\<close>; binding or validation in
  \<^verbatim>\<open>Register\<close>; binding, validation or token extraction in \<^verbatim>\<open>Update\<close>) the handler
  invokes nothing and the state of the service is as before.
\<close>

theorem service_invoked_at_most_once:
  "length (svc_calls (Get pkg ctrl ctx st)) \<le> 1
   \<and> length (svc_calls (Register pkg const ctrl ctx st)) \<le> 1
   \<and> length (svc_calls (Update pkg const ctrl ctx st)) \<le> 1
   \<and> length (svc_calls (Delete pkg const ctrl ctx st)) \<le> 1
   \<and> svc_state (Get pkg ctrl ctx st) = replay (svc ctrl) (svc_calls (Get pkg ctrl ctx st)) st
   \<and> svc_state (Register pkg const ctrl ctx st)
      = replay (svc ctrl) (svc_calls (Register pkg const ctrl ctx st)) st
   \<and> svc_state (Update pkg const ctrl ctx st)
      = replay (svc ctrl) (svc_calls (Update pkg const ctrl ctx st)) st
   \<and> svc_state (Delete pkg const ctrl ctx st)
      = replay (svc ctrl) (svc_calls (Delete pkg const ctrl ctx st)) st
   \<and> (isl (jwt_ExtractID pkg (GetHeader ctx ''Authorization'')) \<longrightarrow>
        svc_calls (Get pkg ctrl ctx st) = [] \<and> svc_state (Get pkg ctrl ctx st) = st
        \<and> svc_calls (Delete pkg const ctrl ctx st) = []
        \<and> svc_state (Delete pkg const ctrl ctx st) = st)
   \<and> (snd (rest_BindJSON_RegisterUser pkg ctx (RegisterUser_zero pkg)) \<noteq> None
        \<or> validation_Struct_RegisterUser pkg
            (fst (rest_BindJSON_RegisterUser pkg ctx (RegisterUser_zero pkg))) \<noteq> None \<longrightarrow>
        svc_calls (Register pkg const ctrl ctx st) = []
        \<and> svc_state (Register pkg const ctrl ctx st) = st)
   \<and> (snd (rest_BindJSON_UpdateUser pkg ctx (UpdateUser_zero pkg)) \<noteq> None
        \<or> validation_Struct_UpdateUser pkg
            (fst (rest_BindJSON_UpdateUser pkg ctx (UpdateUser_zero pkg))) \<noteq> None
        \<or> isl (jwt_ExtractID pkg (GetHeader ctx ''Authorization'')) \<longrightarrow>
        svc_calls (Update pkg const ctrl ctx st) = []
        \<and> svc_state (Update pkg const ctrl ctx st) = st)"
proof -
  have tok: "isl (jwt_ExtractID pkg (GetHeader ctx ''Authorization'')) \<longrightarrow>
        svc_calls (Get pkg ctrl ctx st) = [] \<and> svc_state (Get pkg ctrl ctx st) = st
        \<and> svc_calls (Delete pkg const ctrl ctx st) = []
        \<and> svc_state (Delete pkg const ctrl ctx st) = st"
    by (cases "jwt_ExtractID pkg (GetHeader ctx ''Authorization'')")
      (simp_all add: Get_def Delete_def)
  have reg: "snd (rest_BindJSON_RegisterUser pkg ctx (RegisterUser_zero pkg)) \<noteq> None
        \<or> validation_Struct_RegisterUser pkg
            (fst (rest_BindJSON_RegisterUser pkg ctx (RegisterUser_zero pkg))) \<noteq> None \<longrightarrow>
        svc_calls (Register pkg const ctrl ctx st) = []
        \<and> svc_state (Register pkg const ctrl ctx st) = st"
    by (cases "rest_BindJSON_RegisterUser pkg ctx (RegisterUser_zero pkg)")
      (auto simp add: Register_def split: option.splits)
  have upd: "snd (rest_BindJSON_UpdateUser pkg ctx (UpdateUser_zero pkg)) \<noteq> None
        \<or> validation_Struct_UpdateUser pkg
            (fst (rest_BindJSON_UpdateUser pkg ctx (UpdateUser_zero pkg))) \<noteq> None
        \<or> isl (jwt_ExtractID pkg (GetHeader ctx ''Authorization'')) \<longrightarrow>
        svc_calls (Update pkg const ctrl ctx st) = []
        \<and> svc_state (Update pkg const ctrl ctx st) = st"
    by (cases "rest_BindJSON_UpdateUser pkg ctx (UpdateUser_zero pkg)";
        cases "jwt_ExtractID pkg (GetHeader ctx ''Authorization'')")
      (auto simp add: Update_def split: option.splits)
  show ?thesis
    using tok reg upd Get_calls [of pkg ctrl ctx st] Register_calls [of pkg const ctrl ctx st]
      Update_calls [of pkg const ctrl ctx st] Delete_calls [of pkg const ctrl ctx st]
      Get_replay [of pkg ctrl ctx st] Register_replay [of pkg const ctrl ctx st]
      Update_replay [of pkg const ctrl ctx st] Delete_replay [of pkg const ctrl ctx st]
    by blast
qed

theorem service_invoked_at_most_once_witness:
  "isl (jwt_ExtractID sample_packages (GetHeader (anonymous_request ''{'') ''Authorization''))
   \<and> snd (rest_BindJSON_RegisterUser sample_packages (anonymous_request ''{'')
        (RegisterUser_zero sample_packages)) \<noteq> None
   \<and> snd (rest_BindJSON_UpdateUser sample_packages (anonymous_request ''{'')
        (UpdateUser_zero sample_packages)) \<noteq> None
   \<and> svc_calls (Get sample_packages sample_Controller (anonymous_request ''{'') sample_store) = []
   \<and> svc_state (Get sample_packages sample_Controller (anonymous_request ''{'') sample_store)
      = sample_store
   \<and> svc_calls (Register sample_packages sample_constants sample_Controller
        (anonymous_request ''{'') sample_store) = []
   \<and> svc_state (Register sample_packages sample_constants sample_Controller
        (anonymous_request ''{'') sample_store) = sample_store
   \<and> svc_calls (Update sample_packages sample_constants sample_Controller
        (anonymous_request ''{'') sample_store) = []
   \<and> svc_state (Update sample_packages sample_constants sample_Controller
        (anonymous_request ''{'') sample_store) = sample_store
   \<and> svc_calls (Delete sample_packages sample_constants sample_Controller
        (anonymous_request ''{'') sample_store) = []
   \<and> svc_state (Delete sample_packages sample_constants sample_Controller
        (anonymous_request ''{'') sample_store) = sample_store
   \<and> length (svc_calls (Delete sample_packages sample_constants sample_Controller
        (request_with ''Bearer token-of-1'' []) sample_store)) \<le> 1
   \<and> svc_state (Delete sample_packages sample_constants sample_Controller
        (request_with ''Bearer token-of-1'' []) sample_store)
      = replay (svc sample_Controller)
          (svc_calls (Delete sample_packages sample_constants sample_Controller
            (request_with ''Bearer token-of-1'' []) sample_store)) sample_store"
proof -
  have failed:
    "isl (jwt_ExtractID sample_packages (GetHeader (anonymous_request ''{'') ''Authorization''))"
    "snd (rest_BindJSON_RegisterUser sample_packages (anonymous_request ''{'')
        (RegisterUser_zero sample_packages)) \<noteq> None"
    "snd (rest_BindJSON_UpdateUser sample_packages (anonymous_request ''{'')
        (UpdateUser_zero sample_packages)) \<noteq> None"
    by (simp_all add: sample_defs)
  show ?thesis
    using service_invoked_at_most_once [of sample_packages sample_Controller
        "anonymous_request ''{''" sample_store sample_constants]
      service_invoked_at_most_once [of sample_packages sample_Controller
        "request_with ''Bearer token-of-1'' []" sample_store sample_constants]
      failed
    by blast
qed

end
